theory Spec2Isabelle
  imports Complex_Main "HOL-Library.AList"
begin

section \<open>Python text\<close>

text \<open>
  A Python \<open>str\<close> is a sequence of Unicode code points; \<open>len\<close>, the padding of a format
  field and \<open>' ' * n\<close> all count code points. A string is therefore a list of code
  points, and \<open>cp\<close> reads an ASCII literal as one.
\<close>

type_synonym str = "nat list"

definition cp :: "string \<Rightarrow> str" where
  "cp s = map of_char s"

text \<open>The two box-drawing characters of the structure printer: U+2500 and U+2514.\<close>

definition BOX_H :: nat where
  "BOX_H = 9472"

definition BOX_UR :: nat where
  "BOX_UR = 9492"

definition SPACE :: nat where
  "SPACE = 32"


definition upper_cp :: "nat \<Rightarrow> nat" where
  "upper_cp c = (if 97 \<le> c \<and> c \<le> 122 then c - 32 else c)"

definition lower_cp :: "nat \<Rightarrow> nat" where
  "lower_cp c = (if 65 \<le> c \<and> c \<le> 90 then c + 32 else c)"

text \<open>\<open>s.lower()\<close>\<close>

definition lower :: "str \<Rightarrow> str" where
  "lower s = map lower_cp s"

text \<open>\<open>s.capitalize()\<close>: the first character upper-cased, all the others lower-cased.\<close>

definition capitalize :: "str \<Rightarrow> str" where
  "capitalize s = (case s of [] \<Rightarrow> [] | c # cs \<Rightarrow> upper_cp c # map lower_cp cs)"

text \<open>\<open>' ' * n\<close> and \<open>'x' * n\<close>: a negative count gives the empty string.\<close>

definition times :: "nat \<Rightarrow> int \<Rightarrow> str" where
  "times c n = replicate (nat n) c"

text \<open>The format field \<open>{name:12s}\<close>: left-justified, padded with spaces up to the width,
  and never cut when the text is longer.\<close>

definition format_s :: "nat \<Rightarrow> str \<Rightarrow> str" where
  "format_s width s = s @ replicate (width - length s) SPACE"

text \<open>The decimal text of an index, as \<open>f"{index}"\<close> writes it.\<close>

function str_of_nat :: "nat \<Rightarrow> str" where
  "str_of_nat n = (if n < 10 then [48 + n] else str_of_nat (n div 10) @ [48 + n mod 10])"
  by pat_completeness auto
termination
  by (relation "measure id") auto

declare str_of_nat.simps [simp del]

section \<open>Python values\<close>

text \<open>
  The values the decoder meets. \<open>json.load\<close> produces the first seven kinds; a
  dictionary keeps its insertion order, so it is an association list. \<open>PClass\<close> is a
  class object made by \<open>type(name, (), {})\<close>, with the attributes set on it so far, and
  \<open>POther\<close> stands for a value of any other class, given by the class's name as \<open>repr\<close>
  shows it. The float payload is a parameter: the code never looks inside a float.
\<close>

datatype 'f pyval =
    PNone
  | PBool bool
  | PInt int
  | PFloat 'f
  | PStr str
  | PList "'f pyval list"
  | PDict "(str \<times> 'f pyval) list"
  | PClass str "(str \<times> 'f pyval) list"
  | POther str

text \<open>The classes of these values, what \<open>type(value)\<close> returns.\<close>

datatype pytype =
    Ty_NoneType | Ty_list | Ty_dict | Ty_str | Ty_int | Ty_float | Ty_bool
  | Ty_type | Ty_other str

fun type_of :: "'f pyval \<Rightarrow> pytype" where
  "type_of PNone = Ty_NoneType"
| "type_of (PBool b) = Ty_bool"
| "type_of (PInt i) = Ty_int"
| "type_of (PFloat x) = Ty_float"
| "type_of (PStr s) = Ty_str"
| "type_of (PList xs) = Ty_list"
| "type_of (PDict m) = Ty_dict"
| "type_of (PClass n attrs) = Ty_type"
| "type_of (POther t) = Ty_other t"

text \<open>\<open>cls.__name__\<close>\<close>

fun dunder_name :: "pytype \<Rightarrow> str" where
  "dunder_name Ty_NoneType = cp ''NoneType''"
| "dunder_name Ty_list = cp ''list''"
| "dunder_name Ty_dict = cp ''dict''"
| "dunder_name Ty_str = cp ''str''"
| "dunder_name Ty_int = cp ''int''"
| "dunder_name Ty_float = cp ''float''"
| "dunder_name Ty_bool = cp ''bool''"
| "dunder_name Ty_type = cp ''type''"
| "dunder_name (Ty_other t) = t"

text \<open>\<open>repr(cls)\<close>: the name between \<open><class '\<close> and \<open>'>\<close>.\<close>

definition repr_type :: "pytype \<Rightarrow> str" where
  "repr_type t = cp ''<class '' @ [39] @ dunder_name t @ [39] @ cp ''>''"

text \<open>The items of a list and of a dictionary (\<open>data.items()\<close>).\<close>

fun the_list :: "'f pyval \<Rightarrow> 'f pyval list" where
  "the_list (PList xs) = xs"
| "the_list v = []"

fun items :: "'f pyval \<Rightarrow> (str \<times> 'f pyval) list" where
  "items (PDict m) = m"
| "items v = []"

text \<open>Exceptions, with their message.\<close>

datatype error = ValueError str | TypeError str

section \<open>The classes of structure.py\<close>

subsection \<open>\<open>_KeyValue\<close>\<close>

text \<open>The fields \<open>key\<close> and \<open>value\<close>.\<close>

record 'f KeyValue =
  kv_key :: str
  kv_value :: "'f pyval"

definition asiterable :: "'f KeyValue \<Rightarrow> str \<times> 'f pyval" where
  "asiterable kv = (kv_key kv, kv_value kv)"

subsection \<open>\<open>_Type\<close>\<close>

datatype Type = NONETYPE | LIST | DICT | STRING | INT' | FLOAT | BOOL

text \<open>The member's value and name.\<close>

fun Type_value :: "Type \<Rightarrow> pytype" where
  "Type_value NONETYPE = Ty_NoneType"
| "Type_value LIST = Ty_list"
| "Type_value DICT = Ty_dict"
| "Type_value STRING = Ty_str"
| "Type_value INT' = Ty_int"
| "Type_value FLOAT = Ty_float"
| "Type_value BOOL = Ty_bool"

fun Type_name :: "Type \<Rightarrow> str" where
  "Type_name NONETYPE = cp ''NONETYPE''"
| "Type_name LIST = cp ''LIST''"
| "Type_name DICT = cp ''DICT''"
| "Type_name STRING = cp ''STRING''"
| "Type_name INT' = cp ''INT''"
| "Type_name FLOAT = cp ''FLOAT''"
| "Type_name BOOL = cp ''BOOL''"

text \<open>
  \<open>_Type(cls)\<close>: the member whose value is \<open>cls\<close>. For a class that is no member's
  value the enumeration raises \<open>ValueError\<close>, with the class in the message.
\<close>

fun Type_of :: "pytype \<Rightarrow> error + Type" where
  "Type_of Ty_NoneType = Inr NONETYPE"
| "Type_of Ty_list = Inr LIST"
| "Type_of Ty_dict = Inr DICT"
| "Type_of Ty_str = Inr STRING"
| "Type_of Ty_int = Inr INT'"
| "Type_of Ty_float = Inr FLOAT"
| "Type_of Ty_bool = Inr BOOL"
| "Type_of t = Inl (ValueError (repr_type t @ cp '' is not a valid _Type''))"

definition is_primitive :: "Type \<Rightarrow> bool" where
  "is_primitive t = (t \<in> set [STRING, INT', FLOAT, BOOL])"

definition is_none :: "Type \<Rightarrow> bool" where
  "is_none t = (t = NONETYPE)"

text \<open>\<open>str(dtype)\<close>, in the message of line 112.\<close>

definition str_Type :: "Type \<Rightarrow> str" where
  "str_Type t = cp ''_Type.'' @ Type_name t"

section \<open>Making a class\<close>

text \<open>
  \<open>type(name, (), {})\<close> makes a class of that name with the empty namespace it is given,
  and \<open>setattr\<close> binds an attribute in the namespace of the class: a new name is added
  after the others, a name already bound is bound again. Both are taken to succeed for
  every name: the names the interpreter reserves on a class (such as \<open>__dict__\<close>) and its
  refusal of a class name with a null character are not part of the model.
\<close>

definition type_new :: "str \<Rightarrow> 'f pyval" where
  "type_new name = PClass name []"

fun setattr :: "'f pyval \<Rightarrow> str \<Rightarrow> 'f pyval \<Rightarrow> 'f pyval" where
  "setattr (PClass n attrs) name v = PClass n (AList.update name v attrs)"
| "setattr obj name v = obj"

section \<open>\<open>JSONDecoder._convert\<close> and \<open>JSONDecoder._new_class\<close>\<close>

text \<open>
  \<open>convert\<close> is \<open>_convert\<close>, \<open>convert_comprehension\<close> the list comprehension of line 105,
  \<open>new_class\<close> is \<open>_new_class\<close> and \<open>new_class_loop\<close> its \<open>for\<close> loop. An exception
  (\<open>Inl\<close>) leaves every loop and every caller at once.
\<close>

function convert :: "str \<Rightarrow> 'f pyval \<Rightarrow> error + 'f KeyValue"
  and convert_comprehension :: "str \<Rightarrow> 'f pyval list \<Rightarrow> error + 'f pyval list"
  and new_class :: "str \<Rightarrow> 'f pyval \<Rightarrow> error + 'f pyval"
  and new_class_loop :: "'f pyval \<Rightarrow> (str \<times> 'f pyval) list \<Rightarrow> error + 'f pyval"
where
  "convert key data =
     (case Type_of (type_of data) of
        Inl e \<Rightarrow> Inl e
      | Inr dtype \<Rightarrow>
          if is_primitive dtype \<or> is_none dtype then Inr \<lparr>kv_key = key, kv_value = data\<rparr>
          else if dtype = LIST then
            (case convert_comprehension key (the_list data) of
               Inl e \<Rightarrow> Inl e
             | Inr value \<Rightarrow> Inr \<lparr>kv_key = key, kv_value = PList value\<rparr>)
          else if dtype = DICT then
            (case new_class key data of
               Inl e \<Rightarrow> Inl e
             | Inr value \<Rightarrow> Inr \<lparr>kv_key = key, kv_value = value\<rparr>)
          else Inl (TypeError (cp ''Unsupported type: '' @ str_Type dtype @ cp '' (''
                                 @ repr_type (type_of data) @ cp '')'')))"
| "convert_comprehension key [] = Inr []"
| "convert_comprehension key (item # rest) =
     (case convert key item of
        Inl e \<Rightarrow> Inl e
      | Inr kv \<Rightarrow>
          (case convert_comprehension key rest of
             Inl e \<Rightarrow> Inl e
           | Inr value \<Rightarrow> Inr (kv_value kv # value)))"
| "new_class name data = new_class_loop (type_new (capitalize name)) (items data)"
| "new_class_loop cls [] = Inr cls"
| "new_class_loop cls (pair # rest) =
     (case convert (fst pair) (snd pair) of
        Inl e \<Rightarrow> Inl e
      | Inr kv \<Rightarrow>
          new_class_loop (setattr cls (fst (asiterable kv)) (snd (asiterable kv))) rest)"
  by pat_completeness auto
termination
proof -
  have elems: "2 * size_list size (the_list data) < Suc (2 * size data)" for data
    by (cases data) simp_all
  have entries: "2 * size_list (size_prod (\<lambda>_. 0) size) (items data) < Suc (2 * size data)"
    for data
    by (cases data) simp_all
  show ?thesis
    by (relation "measure (\<lambda>x. case x of
        Inl (Inl (key, data)) \<Rightarrow> 2 * size data + 2
      | Inl (Inr (key, xs)) \<Rightarrow> 2 * size_list size xs + 1
      | Inr (Inl (name, data)) \<Rightarrow> 2 * size data + 1
      | Inr (Inr (cls, m)) \<Rightarrow> 2 * size_list (size_prod (\<lambda>_. 0) size) m)")
      (simp_all add: elems entries split: prod.split)
qed

declare convert.simps [simp del]
declare new_class.simps [simp del]

section \<open>The decoder\<close>

text \<open>
  The decoder object: its path, the document \<open>json.load\<close> returned, and the attribute
  \<open>istep\<close>, which does not exist until \<open>print_structure\<close> sets it. A method returns the
  object as it leaves it.
\<close>

record 'f JSONDecoder =
  self_path :: str
  self_data :: "'f pyval"
  self_istep :: "int option"


section \<open>\<open>JSONDecoder._print_structure\<close> and \<open>JSONDecoder.print_structure\<close>\<close>

text \<open>
  What a call prints and how it ends: the lines printed, in order, and the exception
  that ended it, if any. The lines printed before an exception stay printed.
\<close>

type_synonym printed = "str list \<times> error option"

definition and_then :: "printed \<Rightarrow> printed \<Rightarrow> printed" where
  "and_then p q = (case snd p of Some e \<Rightarrow> p | None \<Rightarrow> (fst p @ fst q, snd q))"

text \<open>
  \<open>print_structure'\<close> is \<open>_print_structure\<close>, with the value of \<open>self.istep\<close> as its first
  argument; \<open>print_dict_loop\<close> and \<open>print_list_loop\<close> are the loops of lines 89 and 93,
  the second with the running index of \<open>enumerate\<close>.
\<close>

function print_structure' :: "int \<Rightarrow> str \<Rightarrow> 'f pyval \<Rightarrow> int \<Rightarrow> printed"
  and print_dict_loop :: "int \<Rightarrow> (str \<times> 'f pyval) list \<Rightarrow> int \<Rightarrow> printed"
  and print_list_loop :: "int \<Rightarrow> nat \<Rightarrow> 'f pyval list \<Rightarrow> int \<Rightarrow> printed"
where
  "print_structure' istep name value indent =
     (case Type_of (type_of value) of
        Inl e \<Rightarrow> ([], Some e)
      | Inr dtype \<Rightarrow>
          if is_primitive dtype then
            (let prefix = times SPACE (indent - 1) @ [BOX_H]
             in ([prefix @ format_s 12 name @ cp ''/'' @ lower (Type_name dtype) @ cp ''/''],
                 None))
          else
            and_then
              (if name = cp ''root'' then ([cp ''.''], None)
               else (let prefix = times SPACE (indent - istep) @ [BOX_UR]
                                    @ times BOX_H (istep - 1)
                     in ([prefix @ name @ cp '' /'' @ dunder_name (Type_value dtype)
                            @ cp ''/''], None)))
              (and_then
                (if dtype = DICT
                 then print_dict_loop istep (items value) (indent + istep)
                 else ([], None))
                (if dtype = LIST
                 then print_list_loop istep 0 (the_list value) (indent + istep)
                 else ([], None))))"
| "print_dict_loop istep [] indent = ([], None)"
| "print_dict_loop istep (pair # rest) indent =
     and_then (print_structure' istep (fst pair) (snd pair) indent)
              (print_dict_loop istep rest indent)"
| "print_list_loop istep index [] indent = ([], None)"
| "print_list_loop istep index (value # rest) indent =
     and_then (print_structure' istep (cp ''#'' @ str_of_nat index) value indent)
              (print_list_loop istep (Suc index) rest indent)"
  by pat_completeness auto
termination
proof -
  have elems: "2 * size_list size (the_list data) < Suc (2 * size data)" for data
    by (cases data) simp_all
  have entries: "2 * size_list (size_prod (\<lambda>_. 0) size) (items data) < Suc (2 * size data)"
    for data
    by (cases data) simp_all
  have entry: "2 * size (snd pair) < Suc (2 * size_prod (\<lambda>_. 0) size pair + n)"
    for pair and n
    by (cases pair) simp
  show ?thesis
    by (relation "measure (\<lambda>x. case x of
        Inl (istep, name, value, indent) \<Rightarrow> 2 * size value + 1
      | Inr (Inl (istep, m, indent)) \<Rightarrow> 2 * size_list (size_prod (\<lambda>_. 0) size) m
      | Inr (Inr (istep, index, xs, indent)) \<Rightarrow> 2 * size_list size xs)")
      (simp_all add: elems entries entry)
qed

declare print_structure'.simps [simp del]

text \<open>
  \<open>print_structure(indentstep=4)\<close>: the argument is optional, \<open>None\<close> when the caller
  leaves it out.
\<close>

definition print_structure :: "'f JSONDecoder \<Rightarrow> int option \<Rightarrow> 'f JSONDecoder \<times> printed" where
  "print_structure self arg =
     (let indentstep = (case arg of None \<Rightarrow> 4 | Some n \<Rightarrow> n)
      in if indentstep < 1
         then (self, [], Some (ValueError (cp ''indentstep must be at least 1.'')))
         else (let self' = self\<lparr>self_istep := Some indentstep\<rparr>
               in (self', print_structure' indentstep (cp ''root'') (self_data self') 0)))"

section \<open>The values \<open>json.load\<close> returns\<close>

text \<open>
  A parsed document has only the seven JSON kinds, at every depth, and the keys of each
  of its dictionaries are distinct, as the keys of any Python dictionary are.
\<close>

fun json_value :: "'f pyval \<Rightarrow> bool" where
  "json_value (PList xs) = (\<forall>x \<in> set xs. json_value x)"
| "json_value (PDict m) = (distinct (map fst m) \<and> (\<forall>p \<in> set m. json_value (snd p)))"
| "json_value (PClass n attrs) = False"
| "json_value (POther t) = False"
| "json_value v = True"

section \<open>Example documents\<close>



definition example_document :: "real pyval" where
  "example_document =
     PDict [(cp ''name'', PStr (cp ''Alice'')), (cp ''age'', PInt 30),
            (cp ''tags'', PList [PStr (cp ''x''), PStr (cp ''y'')])]"

definition example_decoder :: "real JSONDecoder" where
  "example_decoder =
     \<lparr>self_path = cp ''example.json'', self_data = example_document, self_istep = None\<rparr>"

text \<open>The document \<open>{"a": null, "abcdefghijklmnop": 1}\<close>: a null and a label of sixteen
  characters.\<close>

definition leaves_document :: "real pyval" where
  "leaves_document = PDict [(cp ''a'', PNone), (cp ''abcdefghijklmnop'', PInt 1)]"

definition leaves_decoder :: "real JSONDecoder" where
  "leaves_decoder =
     \<lparr>self_path = cp ''leaves.json'', self_data = leaves_document, self_istep = None\<rparr>"

section \<open>Properties of the conversion\<close>

subsection \<open>Dispatch on the kind\<close>

text \<open>The four tests of \<open>_convert\<close> cover every member of \<open>_Type\<close>, so the \<open>raise\<close> of
  line 112 stands after a dispatch that has no case left.\<close>

lemma dispatch_exhaustive:
  "is_primitive dtype \<or> is_none dtype \<or> dtype = LIST \<or> dtype = DICT"
  by (cases dtype) (simp_all add: is_primitive_def is_none_def)










subsection \<open>Primitives and null\<close>

text \<open>
  Claim C2. For a value that is a boolean, an integer, a float, a string or null, and for
  every label, \<open>_convert\<close> returns the pair of the label and the very value it was given.
\<close>

theorem convert_primitive_identity:
  assumes "type_of v \<in> {Ty_bool, Ty_int, Ty_float, Ty_str, Ty_NoneType}"
  shows "convert k v = Inr \<lparr>kv_key = k, kv_value = v\<rparr>"
  using assms by (cases v) (simp_all add: convert.simps is_primitive_def is_none_def)

theorem convert_primitive_identity_witness:
  "type_of (PInt 42 :: real pyval) \<in> {Ty_bool, Ty_int, Ty_float, Ty_str, Ty_NoneType} \<and>
   convert (cp ''k'') (PInt 42 :: real pyval) = Inr \<lparr>kv_key = cp ''k'', kv_value = PInt 42\<rparr>"
proof -
  have h: "type_of (PInt 42 :: real pyval) \<in> {Ty_bool, Ty_int, Ty_float, Ty_str, Ty_NoneType}"
    by simp
  from h convert_primitive_identity [OF h, of "cp ''k''"] show ?thesis by (rule conjI)
qed

subsection \<open>Sequences\<close>



subsection \<open>Mappings\<close>



subsection \<open>The name of the class\<close>





subsection \<open>Values of another kind\<close>

text \<open>
  Claim C7, on the code as it is. For a tuple, a value outside the seven kinds, under the
  label \<open>k\<close>, \<open>_convert\<close> ends with the \<open>ValueError\<close> of the enumeration lookup of line 99,
  whose message names the class; the \<open>TypeError\<close> of line 112 is not what it raises.
\<close>

theorem convert_unsupported_kind:
  "convert (cp ''k'') (POther (cp ''tuple'') :: real pyval)
     = Inl (ValueError (cp ''<class '' @ [39] @ cp ''tuple'' @ [39] @ cp ''> is not a valid _Type''))"
  by (simp add: convert.simps repr_type_def cp_def)

text \<open>The same for every value outside the seven kinds, and line 112 is never reached.\<close>

lemma convert_not_json_kind:
  "convert key (POther t) = Inl (ValueError (repr_type (Ty_other t) @ cp '' is not a valid _Type''))"
  "convert key (PClass n attrs) = Inl (ValueError (repr_type Ty_type @ cp '' is not a valid _Type''))"
  by (simp_all add: convert.simps)

lemma never_TypeError_mutual:
  "convert key (data :: 'f pyval) \<noteq> Inl (TypeError msg)"
  "convert_comprehension key (xs :: 'f pyval list) \<noteq> Inl (TypeError msg)"
  "new_class name (data' :: 'f pyval) \<noteq> Inl (TypeError msg)"
  "new_class_loop (cls :: 'f pyval) m \<noteq> Inl (TypeError msg)"
proof (induction key data and key xs and name data' and cls m
       rule: convert_convert_comprehension_new_class_new_class_loop.induct)
  case (1 key data)
  show ?case
  proof (cases data)
    case (PList xs)
    then show ?thesis using 1(1)
      by (auto simp: convert.simps is_primitive_def is_none_def split: sum.splits)
  next
    case (PDict m)
    then show ?thesis using 1(2)
      by (auto simp: convert.simps is_primitive_def is_none_def split: sum.splits)
  qed (simp_all add: convert.simps is_primitive_def is_none_def)
next
  case (3 key item rest)
  then show ?case by (auto split: sum.splits)
next
  case (4 name data)
  then show ?case by (simp add: new_class.simps)
next
  case (6 cls pair rest)
  then show ?case by (auto split: sum.splits)
qed simp_all

section \<open>Properties of the structure printer\<close>

subsection \<open>A parsed document prints without an exception\<close>

lemma and_then_ok [simp]: "and_then (xs, None) q = (xs @ fst q, snd q)"
  by (simp add: and_then_def)

lemma snd_and_then: "snd p = None \<Longrightarrow> snd q = None \<Longrightarrow> snd (and_then p q) = None"
  by (simp add: and_then_def)

lemma print_ok_mutual:
  "json_value (v :: 'f pyval) \<longrightarrow> snd (print_structure' istep name v indent) = None"
  "(\<forall>p \<in> set (m :: (str \<times> 'f pyval) list). json_value (snd p))
     \<longrightarrow> snd (print_dict_loop istep m indent) = None"
  "(\<forall>x \<in> set (xs :: 'f pyval list). json_value x)
     \<longrightarrow> snd (print_list_loop istep index xs indent) = None"
proof (induction istep name v indent and istep m indent and istep index xs indent
       rule: print_structure'_print_dict_loop_print_list_loop.induct)
  case (1 istep name v indent)
  show ?case
  proof
    assume j: "json_value v"
    show "snd (print_structure' istep name v indent) = None"
    proof (cases v)
      case (PList xs)
      then show ?thesis using 1(2) j
        by (simp add: print_structure'.simps is_primitive_def snd_and_then)
    next
      case (PDict m)
      then show ?thesis using 1(1) j
        by (simp add: print_structure'.simps is_primitive_def snd_and_then)
    qed (use j in \<open>simp_all add: print_structure'.simps is_primitive_def snd_and_then\<close>)
  qed
next
  case (3 istep pair rest indent)
  then show ?case by (simp add: snd_and_then)
next
  case (5 istep index v rest indent)
  then show ?case by (simp add: snd_and_then)
qed simp_all

lemma print_nonempty:
  "json_value v \<Longrightarrow> fst (print_structure' istep name v indent) \<noteq> []"
  by (cases v) (simp_all add: print_structure'.simps is_primitive_def and_then_def split: option.splits)

lemma print_ok: "json_value v \<Longrightarrow> snd (print_structure' istep name v indent) = None"
  using print_ok_mutual(1) by blast

lemma replicate_numeral: "replicate (numeral k) x = x # replicate (pred_numeral k) x"
  by (simp add: numeral_eq_Suc)

subsection \<open>The line of a leaf\<close>

text \<open>
  Claim C4, as amended. For a boolean, an integer, a float or a string, whatever the label
  and the indent, \<open>_print_structure\<close> prints exactly one line: \<open>indent - 1\<close> spaces (none
  when the indent is 0), the character U+2500, the label followed by spaces up to twelve
  characters (a label longer than twelve is written whole, with no space after it), and
  the tag \<open>/bool/\<close>, \<open>/int/\<close>, \<open>/float/\<close> or \<open>/string/\<close>.
\<close>

theorem print_primitive_line:
  "print_structure' istep name (PBool b) indent
     = ([replicate (nat (indent - 1)) SPACE @ [BOX_H] @ name
           @ replicate (12 - length name) SPACE @ cp ''/bool/''], None) \<and>
   print_structure' istep name (PInt i) indent
     = ([replicate (nat (indent - 1)) SPACE @ [BOX_H] @ name
           @ replicate (12 - length name) SPACE @ cp ''/int/''], None) \<and>
   print_structure' istep name (PFloat x) indent
     = ([replicate (nat (indent - 1)) SPACE @ [BOX_H] @ name
           @ replicate (12 - length name) SPACE @ cp ''/float/''], None) \<and>
   print_structure' istep name (PStr s) indent
     = ([replicate (nat (indent - 1)) SPACE @ [BOX_H] @ name
           @ replicate (12 - length name) SPACE @ cp ''/string/''], None)"
  by (simp add: print_structure'.simps is_primitive_def times_def format_s_def lower_def
      lower_cp_def cp_def)

text \<open>
  The claim as first stated fails on \<open>{"a": null, "abcdefghijklmnop": 1}\<close> with a step
  of 4. The null is no primitive for line 77, so it is printed by the branch of the
  containers, with the corner and \<open>/NoneType/\<close>; and the label of sixteen characters
  is not held to a field of twelve.
\<close>

theorem print_leaf_counterexample:
  "snd (print_structure leaves_decoder (Some 4))
     = ([cp ''.'',
         [BOX_UR, BOX_H, BOX_H, BOX_H] @ cp ''a /NoneType/'',
         cp ''   '' @ [BOX_H] @ cp ''abcdefghijklmnop/int/''], None) \<and>
   take 4 ([BOX_UR, BOX_H, BOX_H, BOX_H] @ cp ''a /NoneType/'') \<noteq> cp ''   '' @ [BOX_H] \<and>
   length (cp ''   '' @ [BOX_H] @ cp ''abcdefghijklmnop/int/'')
     \<noteq> 3 + 1 + 12 + length (cp ''/int/'')"
  by (simp add: print_structure_def leaves_decoder_def leaves_document_def
      print_structure'.simps is_primitive_def times_def format_s_def lower_def lower_cp_def
      SPACE_def BOX_UR_def BOX_H_def cp_def replicate_numeral)

subsection \<open>The step of the indentation\<close>

text \<open>
  Claim C5. On a parsed document, \<open>print_structure\<close> with a step below 1 prints nothing
  and raises the \<open>ValueError\<close> of line 67; with a step of 1 or more it raises nothing and
  prints at least the line of the root.
\<close>

theorem print_structure_indentstep:
  assumes "json_value (self_data self)"
  shows "(n < 1 \<longrightarrow> snd (print_structure self (Some n))
                      = ([], Some (ValueError (cp ''indentstep must be at least 1.'')))) \<and>
         (1 \<le> n \<longrightarrow> snd (snd (print_structure self (Some n))) = None \<and>
                    fst (snd (print_structure self (Some n))) \<noteq> [])"
  using assms by (simp add: print_structure_def Let_def print_ok print_nonempty)

theorem print_structure_indentstep_witness:
  "json_value (self_data example_decoder) \<and>
   snd (print_structure example_decoder (Some 0))
     = ([], Some (ValueError (cp ''indentstep must be at least 1.''))) \<and>
   snd (print_structure example_decoder (Some (- 3)))
     = ([], Some (ValueError (cp ''indentstep must be at least 1.''))) \<and>
   snd (snd (print_structure example_decoder (Some 1))) = None \<and>
   snd (snd (print_structure example_decoder (Some 4))) = None \<and>
   fst (snd (print_structure example_decoder (Some 4))) \<noteq> []"
proof -
  have h: "json_value (self_data example_decoder)"
    by (simp add: example_decoder_def example_document_def cp_def)
  show ?thesis
    using h print_structure_indentstep [OF h, of 0] print_structure_indentstep [OF h, of "- 3"]
      print_structure_indentstep [OF h, of 1] print_structure_indentstep [OF h, of 4]
    by simp
qed

text \<open>
  Claim C10. Without an argument \<open>print_structure\<close> does what it does with the step 4:
  the same lines, the same end, the same decoder afterwards.
\<close>

theorem print_structure_default:
  "print_structure self None = print_structure self (Some 4)"
  by (simp add: print_structure_def)

subsection \<open>The example of the specification\<close>

lemma print_example_document:
  "print_structure' 4 (cp ''root'') example_document 0
     = ([cp ''.'',
         cp ''   '' @ [BOX_H] @ cp ''name        /string/'',
         cp ''   '' @ [BOX_H] @ cp ''age         /int/'',
         [BOX_UR, BOX_H, BOX_H, BOX_H] @ cp ''tags /list/'',
         cp ''       '' @ [BOX_H] @ cp ''#0          /string/'',
         cp ''       '' @ [BOX_H] @ cp ''#1          /string/''], None)"
  by (simp add: example_document_def print_structure'.simps is_primitive_def times_def
      format_s_def lower_def lower_cp_def str_of_nat.simps SPACE_def cp_def replicate_numeral)

text \<open>
  Claim C8, as amended. For \<open>{"name": "Alice", "age": 30, "tags": ["x", "y"]}\<close> and the
  step 4, \<open>print_structure\<close> prints six lines: \<open>.\<close> for the root; a leaf line for \<open>name\<close>
  (three spaces, U+2500, the label padded to twelve characters) with the tag \<open>/string/\<close>;
  a leaf line for \<open>age\<close> with the tag \<open>/int/\<close>; the line of \<open>tags\<close>, made of U+2514, three
  times U+2500, the label, a space and \<open>/list/\<close>; and the leaf lines of \<open>#0\<close> and \<open>#1\<close>,
  with seven spaces before U+2500, so four columns further right than the leaves of the
  root, and the tag \<open>/string/\<close>.
\<close>

theorem print_example:
  "snd (print_structure example_decoder (Some 4))
     = ([cp ''.'',
         cp ''   '' @ [BOX_H] @ cp ''name        /string/'',
         cp ''   '' @ [BOX_H] @ cp ''age         /int/'',
         [BOX_UR, BOX_H, BOX_H, BOX_H] @ cp ''tags /list/'',
         cp ''       '' @ [BOX_H] @ cp ''#0          /string/'',
         cp ''       '' @ [BOX_H] @ cp ''#1          /string/''], None)"
  by (simp add: print_structure_def example_decoder_def print_example_document)

text \<open>
  The claim as first stated gives the leaf of \<open>name\<close> the shape of a container line with
  the tag \<open>/str/\<close>, and the leaves \<open>#0\<close> and \<open>#1\<close> the tag \<open>str\<close>: the line of \<open>name\<close> is another
  one, and the tags of the three strings are \<open>/string/\<close>, the lower-cased name of the
  member \<open>STRING\<close>.
\<close>

theorem print_example_counterexample:
  "fst (snd (print_structure example_decoder (Some 4))) ! 1
     = cp ''   '' @ [BOX_H] @ cp ''name        /string/'' \<and>
   fst (snd (print_structure example_decoder (Some 4))) ! 1
     \<noteq> [BOX_UR, BOX_H, BOX_H, BOX_H] @ cp ''name /str/'' \<and>
   drop 20 (fst (snd (print_structure example_decoder (Some 4))) ! 4) = cp ''/string/'' \<and>
   drop 20 (fst (snd (print_structure example_decoder (Some 4))) ! 5) = cp ''/string/'' \<and>
   cp ''/string/'' \<noteq> cp ''/str/''"
  by (simp add: print_structure_def example_decoder_def print_example_document)
     (simp add: cp_def BOX_UR_def BOX_H_def)

section \<open>The document is only read\<close>


end
